theory Spec2Isabelle
  imports Main "HOL-Library.Sublist"
begin

section \<open>Python string and list primitives used by the scripts\<close>

text \<open>
  Text is a list of characters whose code points are below 256. The primitives below are
  the ones \<^verbatim>\<open>scripts/flutter_check.py\<close> applies to it: \<^verbatim>\<open>x in s\<close>,
  \<^verbatim>\<open>s.split(c)\<close> for a one-character separator, \<^verbatim>\<open>s.strip()\<close>,
  \<^verbatim>\<open>s.replace(c, d)\<close>, \<^verbatim>\<open>s.startswith(p)\<close> (written \<open>prefix p s\<close>),
  \<^verbatim>\<open>f.readlines()\<close> and indexing with a non-negative constant.
\<close>

datatype py_error =
    FileNotFoundError | NotADirectoryError | IsADirectoryError
  | IndexError | KeyError | TypeError | AttributeError | NameError
  | JSONDecodeError

definition quote1 :: char where
  "quote1 = CHR 0x27"

definition quote2 :: char where
  "quote2 = CHR 0x22"

definition LF :: char where
  "LF = CHR 0x0A"

definition CR :: char where
  "CR = CHR 0x0D"

fun py_in :: "string \<Rightarrow> string \<Rightarrow> bool" where
  "py_in needle [] = (needle = [])"
| "py_in needle (c # cs) = (prefix needle (c # cs) \<or> py_in needle cs)"

fun py_split :: "char \<Rightarrow> string \<Rightarrow> string list" where
  "py_split sep [] = [[]]"
| "py_split sep (c # cs) =
     (if c = sep then [] # py_split sep cs
      else (case py_split sep cs of
              [] \<Rightarrow> [[c]]
            | w # ws \<Rightarrow> (c # w) # ws))"

definition py_index :: "'a list \<Rightarrow> nat \<Rightarrow> py_error + 'a" where
  "py_index xs i = (if i < length xs then Inr (xs ! i) else Inl IndexError)"

definition isspace :: "char \<Rightarrow> bool" where
  "isspace c = ((of_char c :: nat) \<in> set [9, 10, 11, 12, 13, 28, 29, 30, 31, 32, 133, 160])"

definition strip :: "string \<Rightarrow> string" where
  "strip s = rev (dropWhile isspace (rev (dropWhile isspace s)))"

definition replace :: "char \<Rightarrow> char \<Rightarrow> string \<Rightarrow> string" where
  "replace old new s = map (\<lambda>c. if c = old then new else c) s"

text \<open>Text mode reads a file with universal newlines: CR LF and a lone CR become LF.\<close>

fun universal_newlines :: "string \<Rightarrow> string" where
  "universal_newlines (c # d # cs) =
     (if c = CR \<and> d = LF then LF # universal_newlines cs
      else if c = CR then LF # universal_newlines (d # cs)
      else c # universal_newlines (d # cs))"
| "universal_newlines [c] = (if c = CR then [LF] else [c])"
| "universal_newlines [] = []"

text \<open>\<^verbatim>\<open>readlines()\<close>: the lines of a text, each with its line feed; a last line
  without one is kept as it is.\<close>

fun readlines :: "string \<Rightarrow> string list" where
  "readlines [] = []"
| "readlines (c # cs) =
     (if c = LF then [c] # readlines cs
      else (case readlines cs of
              [] \<Rightarrow> [[c]]
            | l # ls \<Rightarrow> (c # l) # ls))"

section \<open>The project directory\<close>

text \<open>
  The scripts run from the root of the project. The project is a tree of directories and
  text files; the entries of a directory are in the order \<^verbatim>\<open>os.scandir\<close> lists
  them. A path is resolved segment by segment, empty segments skipped (the paths the
  scripts build never hold a \<^verbatim>\<open>.\<close> or \<^verbatim>\<open>..\<close> segment). Symbolic
  links, permissions and undecodable bytes are outside the model.
\<close>

datatype node = File string | Dir "(string \<times> node) list"

fun is_dir :: "node \<Rightarrow> bool" where
  "is_dir (Dir es) = True"
| "is_dir (File c) = False"

definition path_segments :: "string \<Rightarrow> string list" where
  "path_segments p = filter (\<lambda>s. s \<noteq> []) (py_split (CHR ''/'') p)"

fun resolve :: "node \<Rightarrow> string list \<Rightarrow> py_error + node" where
  "resolve n [] = Inr n"
| "resolve (File c) (s # ss) = Inl NotADirectoryError"
| "resolve (Dir es) (s # ss) =
     (case map_of es s of
        None \<Rightarrow> Inl FileNotFoundError
      | Some n \<Rightarrow> resolve n ss)"

text \<open>\<^verbatim>\<open>open(p).read()\<close>\<close>

definition fs_read :: "node \<Rightarrow> string \<Rightarrow> py_error + string" where
  "fs_read t p =
     (case resolve t (path_segments p) of
        Inl e \<Rightarrow> Inl e
      | Inr (Dir es) \<Rightarrow> Inl IsADirectoryError
      | Inr (File c) \<Rightarrow> Inr (universal_newlines c))"

definition dirnames :: "(string \<times> node) list \<Rightarrow> string list" where
  "dirnames es = map fst (filter (\<lambda>e. is_dir (snd e)) es)"

definition filenames :: "(string \<times> node) list \<Rightarrow> string list" where
  "filenames es = map fst (filter (\<lambda>e. \<not> is_dir (snd e)) es)"

text \<open>
  \<^verbatim>\<open>os.walk(top)\<close>, top-down: the triple of a directory (its path below
  \<open>top\<close> as segments, its sub-directories, its other entries) comes before the triples
  of its sub-directories, taken in order. A \<open>top\<close> that is no directory gives no triple:
  \<^verbatim>\<open>os.walk\<close> swallows the error of listing it.
\<close>

fun walk :: "string list \<Rightarrow> node \<Rightarrow> (string list \<times> string list \<times> string list) list" where
  "walk root (File c) = []"
| "walk root (Dir es) =
     (root, dirnames es, filenames es) #
     concat (map (\<lambda>e. walk (root @ [fst e]) (snd e)) (filter (\<lambda>e. is_dir (snd e)) es))"

definition os_walk :: "node \<Rightarrow> string \<Rightarrow> (string list \<times> string list \<times> string list) list" where
  "os_walk t top_dir =
     (case resolve t (path_segments top_dir) of
        Inl e \<Rightarrow> []
      | Inr n \<Rightarrow> walk [] n)"

section \<open>The identity descriptor\<close>

text \<open>What \<^verbatim>\<open>json.load\<close> returns; an object is the list of its keys and values.\<close>

datatype json =
    JNull | JBool bool | JNum int | JStr string
  | JArr "json list" | JObj "(string \<times> json) list"

text \<open>\<^verbatim>\<open>app_info[key]\<close>\<close>

fun subscript :: "json \<Rightarrow> string \<Rightarrow> py_error + json" where
  "subscript (JObj kvs) k =
     (case map_of kvs k of None \<Rightarrow> Inl KeyError | Some v \<Rightarrow> Inr v)"
| "subscript j k = Inl TypeError"

text \<open>\<^verbatim>\<open>app_info.get(key, default)\<close>\<close>

fun dict_get :: "json \<Rightarrow> string \<Rightarrow> json \<Rightarrow> py_error + json" where
  "dict_get (JObj kvs) k d =
     (case map_of kvs k of None \<Rightarrow> Inr d | Some v \<Rightarrow> Inr v)"
| "dict_get j k d = Inl AttributeError"

text \<open>\<^verbatim>\<open>v not in text\<close>, for a value \<open>v\<close> of the descriptor\<close>

fun py_not_in :: "json \<Rightarrow> string \<Rightarrow> py_error + bool" where
  "py_not_in (JStr s) text = Inr (\<not> py_in s text)"
| "py_not_in j text = Inl TypeError"

text \<open>A value used as a string: \<^verbatim>\<open>v.split(...)\<close>, \<^verbatim>\<open>v.replace(...)\<close>\<close>

fun str_method :: "json \<Rightarrow> py_error + string" where
  "str_method (JStr s) = Inr s"
| "str_method j = Inl AttributeError"

section \<open>Runs of a script\<close>

text \<open>
  A run ends by \<^verbatim>\<open>exit(n)\<close>, by an uncaught exception, or by reaching the end of
  the script (status 0). The log of a run holds the lines printed to standard output, the
  paths opened or listed, and the verdict of every check executed, in order.
\<close>

datatype outcome = Exit nat | Raised py_error

datatype verdict = Passed | Failed

record log =
  stdout :: "string list"
  opened :: "string list"
  checks :: "verdict list"

definition log0 :: log where
  "log0 = \<lparr>stdout = [], opened = [], checks = []\<rparr>"

type_synonym 'a prog = "log \<Rightarrow> (outcome + 'a) \<times> log"

definition ret :: "'a \<Rightarrow> 'a prog" where
  "ret x s = (Inr x, s)"

definition andThen :: "'a prog \<Rightarrow> ('a \<Rightarrow> 'b prog) \<Rightarrow> 'b prog" where
  "andThen m f s =
     (case m s of
        (Inl out, s') \<Rightarrow> (Inl out, s')
      | (Inr x, s') \<Rightarrow> f x s')"

definition lift :: "py_error + 'a \<Rightarrow> 'a prog" where
  "lift r s = (case r of Inl e \<Rightarrow> (Inl (Raised e), s) | Inr x \<Rightarrow> (Inr x, s))"

definition open_read :: "node \<Rightarrow> string \<Rightarrow> string prog" where
  "open_read t p s = lift (fs_read t p) (s\<lparr>opened := opened s @ [p]\<rparr>)"

text \<open>
  A check of the script is \<^verbatim>\<open>if failing: print(m1); ...; exit(1)\<close>: it prints its
  messages and exits with status 1, or goes on to the next statement.
\<close>

definition check :: "bool \<Rightarrow> string list \<Rightarrow> unit prog" where
  "check failing msgs s =
     (if failing
      then (Inl (Exit 1), s\<lparr>stdout := stdout s @ msgs, checks := checks s @ [Failed]\<rparr>)
      else (Inr (), s\<lparr>checks := checks s @ [Passed]\<rparr>))"

section \<open>scripts/flutter\_check.py\<close>

record args =
  app_info :: string
  skip_ios :: bool
  skip_android :: bool
  skip_kotlin :: bool

text \<open>
  The world of a run: the project directory, and what
  \<^verbatim>\<open>json.load(open(args.app_info))\<close> gives in it.
\<close>

record world =
  tree :: node
  app_info_json :: "py_error + json"

subsection \<open>The version numbers (lines 51 to 73)\<close>

fun scan_version_dart :: "string list \<Rightarrow> py_error + string" where
  "scan_version_dart [] = Inr ''''"
| "scan_version_dart (line # rest) =
     (if py_in ''APP_VERSION'' line then
        (if py_in [quote1] line then py_index (py_split quote1 line) 1
         else if py_in [quote2] line then py_index (py_split quote2 line) 1
         else Inr '''')
      else scan_version_dart rest)"

definition VERSION_DART :: "string \<Rightarrow> py_error + string" where
  "VERSION_DART text = scan_version_dart (readlines text)"

fun scan_version_pubspec :: "string list \<Rightarrow> py_error + string" where
  "scan_version_pubspec [] = Inr ''''"
| "scan_version_pubspec (line # rest) =
     (if prefix ''version:'' line then
        (case py_index (py_split (CHR '':'') line) 1 of
           Inl e \<Rightarrow> Inl e
         | Inr v \<Rightarrow> Inr (strip v))
      else scan_version_pubspec rest)"

definition VERSION_PUBSPEC :: "string \<Rightarrow> py_error + string" where
  "VERSION_PUBSPEC text = scan_version_pubspec (readlines text)"

definition version_messages :: "string \<Rightarrow> string \<Rightarrow> string list" where
  "version_messages vd vp =
     [''Error: version number in version.dart and pubspec.yaml are different'',
      ''       version.dart: '' @ vd,
      ''       pubspec.yaml: '' @ vp]"

definition version_check :: "node \<Rightarrow> unit prog" where
  "version_check t =
     andThen (open_read t ''lib/config/version.dart'') (\<lambda>dart.
     andThen (lift (VERSION_DART dart)) (\<lambda>vd.
     andThen (open_read t ''pubspec.yaml'') (\<lambda>pubspec.
     andThen (lift (VERSION_PUBSPEC pubspec)) (\<lambda>vp.
     check (vd \<noteq> vp) (version_messages vd vp)))))"

subsection \<open>The descriptor (line 78)\<close>

definition load_app_info :: "world \<Rightarrow> args \<Rightarrow> json prog" where
  "load_app_info w a s = lift (app_info_json w) (s\<lparr>opened := opened s @ [app_info a]\<rparr>)"

text \<open>\<^verbatim>\<open>app_info[key] not in text\<close>\<close>

definition key_not_in :: "json \<Rightarrow> string \<Rightarrow> string \<Rightarrow> bool prog" where
  "key_not_in info k text =
     lift (case subscript info k of Inl e \<Rightarrow> Inl e | Inr v \<Rightarrow> py_not_in v text)"

text \<open>\<^verbatim>\<open>app_info[key]\<close> where the script goes on to call a string method on it\<close>

definition key_str :: "json \<Rightarrow> string \<Rightarrow> string prog" where
  "key_str info k =
     lift (case subscript info k of Inl e \<Rightarrow> Inl e | Inr v \<Rightarrow> str_method v)"

subsection \<open>The Android manifests (lines 83 to 107)\<close>

definition android_manifest_checks :: "node \<Rightarrow> json \<Rightarrow> unit prog" where
  "android_manifest_checks t info =
     andThen (open_read t ''android/app/src/main/AndroidManifest.xml'') (\<lambda>android_manifest.
     andThen (key_not_in info ''name'' android_manifest) (\<lambda>c1.
     andThen (check c1
        [''Error: app name not found in main / AndroidManifest.xml (android:label)'',
         ''       check: android/app/src/main/AndroidManifest.xml'']) (\<lambda>_.
     andThen (open_read t ''android/app/src/debug/AndroidManifest.xml'') (\<lambda>android_debug_manifest.
     andThen (key_not_in info ''name'' android_manifest) (\<lambda>c2.
     andThen (check c2
        [''Error: app name not found in debug / AndroidManifest.xml (android:label)'',
         ''       check: android/app/src/debug/AndroidManifest.xml'']) (\<lambda>_.
     andThen (key_not_in info ''package'' android_manifest) (\<lambda>c3.
     andThen (check c3
        [''Error: package name not found in main / AndroidManifest.xml (package)'',
         ''       check: android/app/src/main/AndroidManifest.xml'']) (\<lambda>_.
     andThen (key_not_in info ''package'' android_debug_manifest) (\<lambda>c4.
     check c4
        [''Error: package name not found in debug / AndroidManifest.xml (package)'',
         ''       check: android/app/src/debug/AndroidManifest.xml''])))))))))"

subsection \<open>The Kotlin sources (lines 109 to 154)\<close>

text \<open>The inner loop, \<^verbatim>\<open>for dir in dirs\<close>\<close>

fun check_dirs :: "string list \<Rightarrow> string list \<Rightarrow> unit prog" where
  "check_dirs split_package [] = ret ()"
| "check_dirs split_package (dir # dirs) =
     andThen (check (dir \<notin> set split_package)
        [''Error: package name not found in folder structure (android/app/src/main/kotlin/''
           @ dir @ '')'']) (\<lambda>_.
     check_dirs split_package dirs)"

text \<open>
  The outer loop, \<^verbatim>\<open>for root, dirs, files in android_dir_tree\<close>. It returns the
  value \<open>files\<close> is bound to when the loop ends: that of the last triple, or none when
  the walk gave no triple.
\<close>

fun walk_loop ::
  "string list \<Rightarrow> string list option \<Rightarrow> (string list \<times> string list \<times> string list) list
     \<Rightarrow> string list option prog" where
  "walk_loop split_package files [] = ret files"
| "walk_loop split_package files ((root, dirs, fs) # rest) =
     andThen (check_dirs split_package dirs) (\<lambda>_.
     walk_loop split_package (Some fs) rest)"

definition kotlin_root :: string where
  "kotlin_root = ''android/app/src/main/kotlin/''"

definition kotlin_checks :: "node \<Rightarrow> json \<Rightarrow> unit prog" where
  "kotlin_checks t info =
     andThen (key_str info ''package'') (\<lambda>package.
     andThen (\<lambda>s. walk_loop (py_split (CHR ''.'') package) None (os_walk t kotlin_root)
                     (s\<lparr>opened := opened s @ [kotlin_root]\<rparr>)) (\<lambda>files.
     andThen (case files of
                None \<Rightarrow> lift (Inl NameError)
              | Some fs \<Rightarrow>
                  check (''MainActivity.kt'' \<notin> set fs)
                    [''Error: MainActivity.kt not found in android/app/src/main/kotlin/'']) (\<lambda>_.
     andThen (key_str info ''package'') (\<lambda>package.
     andThen (open_read t ((kotlin_root @ replace (CHR ''.'') (CHR ''/'') package)
                              @ ''/MainActivity.kt'')) (\<lambda>main_activity.
     andThen (key_not_in info ''package'' main_activity) (\<lambda>c1.
     andThen (key_str info ''package'') (\<lambda>package.
     andThen (check c1
        [''Error: package name not found in MainActivity.kt (package '' @ package @ '')'']) (\<lambda>_.
     check (\<not> py_in ''FlutterFragmentActivity'' main_activity)
        [''Error: FlutterFragmentActivity not found in MainActivity.kt'',
         ''       check: android/app/src/main/kotlin/''
           @ (kotlin_root @ replace (CHR ''.'') (CHR ''/'') package)
           @ ''/MainActivity.kt'']))))))))"

subsection \<open>The build configuration (lines 158 to 218)\<close>

definition keystore_snippet :: string where
  "keystore_snippet =
     ''\<newline>'' @
     ''    Open android/app/build.gradle and add the following lines before the android { ... } block:\<newline>'' @
     ''\<newline>'' @
     ''    def keystoreProperties = new Properties()\<newline>'' @
     ''    def keystorePropertiesFile = rootProject.file('key.properties')\<newline>'' @
     ''    if (keystorePropertiesFile.exists()) {\<newline>'' @
     ''        keystoreProperties.load(new FileInputStream(keystorePropertiesFile))\<newline>'' @
     ''    }\<newline>'' @
     ''    ''"

definition signing_snippet :: string where
  "signing_snippet =
     ''\<newline>'' @
     ''    Open android/app/build.gradle and add the following lines inside the android { ... } block,\<newline>'' @
     ''    DELETE buildTypes { ... } block and replace everything with:\<newline>'' @
     ''\<newline>'' @
     ''        signingConfigs {\<newline>'' @
     ''        release {\<newline>'' @
     ''            keyAlias keystoreProperties['keyAlias']\<newline>'' @
     ''            keyPassword keystoreProperties['keyPassword']\<newline>'' @
     ''            storeFile keystoreProperties['storeFile'] ? file(keystoreProperties['storeFile']) : null\<newline>'' @
     ''            storePassword keystoreProperties['storePassword']\<newline>'' @
     ''        }\<newline>'' @
     ''        }\<newline>'' @
     ''\<newline>'' @
     ''        buildTypes {\<newline>'' @
     ''            release {\<newline>'' @
     ''                signingConfig signingConfigs.release\<newline>'' @
     ''            }\<newline>'' @
     ''        }\<newline>'' @
     ''\<newline>'' @
     ''    ''"

definition build_gradle_checks :: "node \<Rightarrow> json \<Rightarrow> unit prog" where
  "build_gradle_checks t info =
     andThen (open_read t ''android/app/build.gradle'') (\<lambda>build_gradle.
     andThen (check (\<not> py_in ''keystoreProperties'' build_gradle)
        [''Error: keystoreProperties not found in android/app/build.gradle'',
         keystore_snippet]) (\<lambda>_.
     andThen (check (\<not> py_in ''signingConfigs {'' build_gradle)
        [''Error: signingConfigs not found in android/app/build.gradle'',
         signing_snippet]) (\<lambda>_.
     andThen (key_not_in info ''package'' build_gradle) (\<lambda>c3.
     andThen (key_str info ''package'') (\<lambda>package.
     andThen (check c3
        [''Error: package name not found in android/app/build.gradle (applicationId ''
           @ package @ '')'']) (\<lambda>_.
     check (py_in ''flutterVersionCode.toInteger()'' build_gradle)
        [''Error: versionCode must be a real number in android/app/build.gradle'',
         ''       check: android/app/build.gradle  - change flutterVersionCode.toInteger() to a real number'']))))))"

definition android_checks :: "node \<Rightarrow> args \<Rightarrow> json \<Rightarrow> unit prog" where
  "android_checks t a info =
     (if \<not> skip_android a then
        andThen (android_manifest_checks t info) (\<lambda>_.
        andThen (if \<not> skip_kotlin a then kotlin_checks t info else ret ()) (\<lambda>_.
        build_gradle_checks t info))
      else ret ())"

subsection \<open>The iOS files (lines 221 to 243)\<close>

definition ios_pname :: "json \<Rightarrow> json prog" where
  "ios_pname info =
     andThen (lift (case info of JObj kvs \<Rightarrow> Inr () | _ \<Rightarrow> Inl AttributeError)) (\<lambda>_.
     andThen (lift (subscript info ''package'')) (\<lambda>package.
     lift (dict_get info ''ios-package'' package)))"

definition pbxproj_message :: "json \<Rightarrow> string" where
  "pbxproj_message pname =
     ''Error: app name '' @ [quote1] @ (case pname of JStr s \<Rightarrow> s | _ \<Rightarrow> '''') @ [quote1]
       @ '' not found in ios/Runner.xcodeproj/project.pbxproj (PRODUCT_NAME and PRODUCT_BUNDLE_IDENTIFIER)''"

definition ios_checks :: "node \<Rightarrow> args \<Rightarrow> json \<Rightarrow> unit prog" where
  "ios_checks t a info =
     (if \<not> skip_ios a then
        andThen (open_read t ''ios/Runner/Info.plist'') (\<lambda>info_plist.
        andThen (key_not_in info ''name'' info_plist) (\<lambda>c1.
        andThen (check c1
           [''Error: app name not found in Info.plist (CFBundleDisplayName / CFBundleName)'',
            ''       check: ios/Runner/Info.plist'']) (\<lambda>_.
        andThen (ios_pname info) (\<lambda>pname.
        andThen (open_read t ''ios/Runner.xcodeproj/project.pbxproj'') (\<lambda>project_pbxproj.
        andThen (lift (py_not_in pname project_pbxproj)) (\<lambda>c2.
        check c2 [pbxproj_message pname]))))))
      else ret ())"

subsection \<open>The whole script\<close>

definition script :: "world \<Rightarrow> args \<Rightarrow> unit prog" where
  "script w a =
     andThen (version_check (tree w)) (\<lambda>_.
     andThen (load_app_info w a) (\<lambda>info.
     andThen (android_checks (tree w) a info) (\<lambda>_.
     ios_checks (tree w) a info)))"

definition flutter_check :: "world \<Rightarrow> args \<Rightarrow> outcome \<times> log" where
  "flutter_check w a =
     (case script w a log0 of
        (Inl out, s) \<Rightarrow> (out, s)
      | (Inr u, s) \<Rightarrow> (Exit 0, s))"


section \<open>The version tokens, as the specification words them\<close>

text \<open>
  The specification describes the two tokens by the line they are taken from: the first
  line holding the marker, the first line starting with the label. The definitions below
  follow these words; they are compared with \<open>scan_version_dart\<close> and
  \<open>scan_version_pubspec\<close>, which follow the loops of the script. The text taken from a
  line is what stands between the first and the second separator, or after the first one
  when there is no second.
\<close>

definition between_quotes :: "char \<Rightarrow> string \<Rightarrow> string" where
  "between_quotes q l = takeWhile (\<lambda>c. c \<noteq> q) (tl (dropWhile (\<lambda>c. c \<noteq> q) l))"

definition spec_dart_token :: "string option \<Rightarrow> string" where
  "spec_dart_token first_line =
     (case first_line of
        None \<Rightarrow> ''''
      | Some l \<Rightarrow>
          if quote1 \<in> set l then between_quotes quote1 l
          else if quote2 \<in> set l then between_quotes quote2 l
          else '''')"

definition spec_pubspec_token :: "string option \<Rightarrow> string" where
  "spec_pubspec_token first_line =
     (case first_line of
        None \<Rightarrow> ''''
      | Some l \<Rightarrow> strip (between_quotes (CHR '':'') l))"

section \<open>Example projects\<close>

definition version_files :: "string \<Rightarrow> string \<Rightarrow> (string \<times> node) list" where
  "version_files dart pubspec =
     [(''lib'', Dir [(''config'', Dir [(''version.dart'', File dart)])]),
      (''pubspec.yaml'', File pubspec)]"

definition android_files ::
  "string \<Rightarrow> string \<Rightarrow> (string \<times> node) list \<Rightarrow> string \<Rightarrow> (string \<times> node) list" where
  "android_files main_manifest debug_manifest kotlin gradle =
     [(''android'', Dir [(''app'', Dir
        [(''build.gradle'', File gradle),
         (''src'', Dir
            [(''debug'', Dir [(''AndroidManifest.xml'', File debug_manifest)]),
             (''main'', Dir [(''AndroidManifest.xml'', File main_manifest),
                             (''kotlin'', Dir kotlin)])])])])]"

definition ios_files :: "string \<Rightarrow> string \<Rightarrow> (string \<times> node) list" where
  "ios_files plist pbxproj =
     [(''ios'', Dir [(''Runner'', Dir [(''Info.plist'', File plist)]),
                     (''Runner.xcodeproj'', Dir [(''project.pbxproj'', File pbxproj)])])]"

definition woxxy_info :: json where
  "woxxy_info = JObj [(''name'', JStr ''Woxxy''), (''package'', JStr ''com.example.woxxy'')]"

definition good_dart :: string where
  "good_dart = ''// version\<newline>const String APP_VERSION = '1.0.2';\<newline>''"

definition good_pubspec :: string where
  "good_pubspec = ''name: woxxy\<newline>version: 1.0.2\<newline>''"

definition old_pubspec :: string where
  "old_pubspec = ''name: woxxy\<newline>version: 1.0.1\<newline>''"

definition good_manifest :: string where
  "good_manifest =
     ''<manifest package=\"com.example.woxxy\"><application android:label=\"Woxxy\"/></manifest>''"

definition good_gradle :: string where
  "good_gradle =
     ''def keystoreProperties = new Properties()\<newline>'' @
     ''android {\<newline> signingConfigs {}\<newline>'' @
     '' applicationId \"com.example.woxxy\"\<newline> versionCode 7\<newline>}\<newline>''"

definition good_activity :: string where
  "good_activity =
     ''package com.example.woxxy\<newline>class MainActivity: FlutterFragmentActivity()\<newline>''"

definition good_kotlin :: "(string \<times> node) list" where
  "good_kotlin =
     [(''com'', Dir [(''example'', Dir [(''woxxy'', Dir
        [(''MainActivity.kt'', File good_activity)])])])]"

definition good_ios :: "(string \<times> node) list" where
  "good_ios =
     ios_files ''<string>Woxxy</string>'' ''PRODUCT_BUNDLE_IDENTIFIER = com.example.woxxy;''"

definition good_world :: world where
  "good_world =
     \<lparr>tree = Dir (version_files good_dart good_pubspec
               @ android_files good_manifest good_manifest good_kotlin good_gradle
               @ good_ios),
      app_info_json = Inr woxxy_info\<rparr>"

definition all_args :: args where
  "all_args =
     \<lparr>app_info = ''app.json'', skip_ios = False, skip_android = False, skip_kotlin = False\<rparr>"

definition skip_both_args :: args where
  "skip_both_args =
     \<lparr>app_info = ''app.json'', skip_ios = True, skip_android = True, skip_kotlin = False\<rparr>"

definition bare_dart :: string where
  "bare_dart = ''// no version here\<newline>''"

definition bare_pubspec :: string where
  "bare_pubspec = ''name: woxxy\<newline>''"

definition skip_android_args :: args where
  "skip_android_args =
     \<lparr>app_info = ''app.json'', skip_ios = False, skip_android = True, skip_kotlin = False\<rparr>"

definition skip_kotlin_ios_args :: args where
  "skip_kotlin_ios_args =
     \<lparr>app_info = ''app.json'', skip_ios = True, skip_android = False, skip_kotlin = True\<rparr>"

definition override_info :: json where
  "override_info =
     JObj [(''name'', JStr ''Woxxy''), (''package'', JStr ''com.example.woxxy''),
           (''ios-package'', JStr ''org.woxxy.ios'')]"

definition override_ios :: "(string \<times> node) list" where
  "override_ios =
     ios_files ''<string>Woxxy</string>'' ''PRODUCT_BUNDLE_IDENTIFIER = org.woxxy.ios;''"



section \<open>What a run leaves in its log\<close>




section \<open>Projects that differ in one platform directory\<close>

text \<open>
  A path is under \<open>d\<close> when its first segment is \<open>d\<close>. Two project directories are the
  same except for \<open>d\<close> when they hold the same entries once the entry \<open>d\<close>, which may be
  present, absent, or not a directory on either side, is left out.
\<close>

definition path_under :: "string \<Rightarrow> string \<Rightarrow> bool" where
  "path_under d p = prefix [d] (path_segments p)"

fun same_except :: "string \<Rightarrow> node \<Rightarrow> node \<Rightarrow> bool" where
  "same_except d (Dir es) (Dir es') =
     (filter (\<lambda>e. fst e \<noteq> d) es = filter (\<lambda>e. fst e \<noteq> d) es')"
| "same_except d (File c) n = False"
| "same_except d (Dir es) (File c) = False"

definition reads_of :: "args \<Rightarrow> string \<Rightarrow> string \<Rightarrow> bool" where
  "reads_of a d p = (p = app_info a \<or> \<not> path_under d p)"

definition opens_only :: "(string \<Rightarrow> bool) \<Rightarrow> 'a prog \<Rightarrow> bool" where
  "opens_only P m = (\<forall>s. list_all P (opened s) \<longrightarrow> list_all P (opened (snd (m s))))"

definition broken_android :: "(string \<times> node) list" where
  "broken_android = [(''android'', File ''not a directory'')]"

definition ios_only_world :: world where
  "ios_only_world =
     \<lparr>tree = Dir (version_files good_dart good_pubspec @ good_ios),
      app_info_json = Inr woxxy_info\<rparr>"

definition broken_android_world :: world where
  "broken_android_world =
     \<lparr>tree = Dir (version_files good_dart good_pubspec @ broken_android @ good_ios),
      app_info_json = Inr woxxy_info\<rparr>"

definition unlabelled_debug_manifest :: string where
  "unlabelled_debug_manifest =
     ''<manifest package=\"com.example.woxxy\"><application/></manifest>''"

definition unlabelled_debug_world :: world where
  "unlabelled_debug_world =
     \<lparr>tree = Dir (version_files good_dart good_pubspec
               @ android_files good_manifest unlabelled_debug_manifest [] good_gradle),
      app_info_json = Inr woxxy_info\<rparr>"

definition misplaced_kotlin :: "(string \<times> node) list" where
  "misplaced_kotlin =
     [(''com'', Dir [(''example'', Dir [(''MainActivity.kt'', File good_activity)])])]"

definition misplaced_activity_world :: world where
  "misplaced_activity_world =
     \<lparr>tree = Dir (version_files good_dart good_pubspec
               @ android_files good_manifest good_manifest misplaced_kotlin good_gradle
               @ good_ios),
      app_info_json = Inr woxxy_info\<rparr>"

definition trailing_dir_kotlin :: "(string \<times> node) list" where
  "trailing_dir_kotlin =
     [(''com'', Dir [(''example'', Dir [(''woxxy'', Dir
        [(''MainActivity.kt'', File good_activity), (''example'', Dir [])])])])]"

definition trailing_dir_world :: world where
  "trailing_dir_world =
     \<lparr>tree = Dir (version_files good_dart good_pubspec
               @ android_files good_manifest good_manifest trailing_dir_kotlin good_gradle
               @ good_ios),
      app_info_json = Inr woxxy_info\<rparr>"

section \<open>scripts/build\_windows.py: the archive of the release folder\<close>







subsection \<open>The round trip, as the specification words it\<close>









section \<open>Lemmas on the primitives\<close>

lemmas fixture_defs = version_files_def android_files_def ios_files_def woxxy_info_def
  good_dart_def good_pubspec_def old_pubspec_def good_manifest_def good_gradle_def
  good_activity_def good_kotlin_def good_ios_def good_world_def all_args_def skip_both_args_def

lemmas run_defs = flutter_check_def script_def version_check_def load_app_info_def
  android_checks_def android_manifest_checks_def kotlin_checks_def build_gradle_checks_def
  ios_checks_def ios_pname_def key_not_in_def key_str_def andThen_def ret_def open_read_def
  lift_def check_def log0_def fs_read_def os_walk_def path_segments_def CR_def LF_def
  VERSION_DART_def VERSION_PUBSPEC_def quote1_def quote2_def py_index_def strip_def
  isspace_def replace_def kotlin_root_def dirnames_def filenames_def version_messages_def

lemma py_split_not_Nil: "py_split sep s \<noteq> []"
  by (induction s) (auto split: list.splits)

lemma py_in_single: "py_in [c] s = (c \<in> set s)"
  by (induction s) auto

lemma length_py_split: "length (py_split sep s) = Suc (length (filter (\<lambda>c. c = sep) s))"
proof (induction s)
  case Nil
  then show ?case by simp
next
  case (Cons c s)
  then show ?case by (cases "py_split sep s") auto
qed

lemma py_split_has_second: "sep \<in> set s \<Longrightarrow> 1 < length (py_split sep s)"
proof -
  assume "sep \<in> set s"
  then have "filter (\<lambda>c. c = sep) s \<noteq> []"
    by (simp add: filter_empty_conv)
  then have "0 < length (filter (\<lambda>c. c = sep) s)" by simp
  then show ?thesis by (simp add: length_py_split)
qed

lemma hd_py_split: "hd (py_split sep s) = takeWhile (\<lambda>c. c \<noteq> sep) s"
  by (induction s) (auto split: list.splits simp: py_split_not_Nil)

lemma tl_py_split:
  "sep \<in> set s \<Longrightarrow> tl (py_split sep s) = py_split sep (tl (dropWhile (\<lambda>c. c \<noteq> sep) s))"
  by (induction s) (auto split: list.splits simp: py_split_not_Nil)

text \<open>The element of index 1 of a split, when the separator occurs: no \<open>IndexError\<close>.\<close>

lemma py_split_second:
  assumes "sep \<in> set s"
  shows "py_index (py_split sep s) (Suc 0) = Inr (between_quotes sep s)"
proof -
  have len: "1 < length (py_split sep s)" using assms by (rule py_split_has_second)
  have "py_split sep s ! (Suc 0) = hd (tl (py_split sep s))"
    using len by (cases "py_split sep s"; cases "tl (py_split sep s)") auto
  also have "\<dots> = between_quotes sep s"
    using assms by (simp add: tl_py_split hd_py_split between_quotes_def)
  finally show ?thesis using len by (simp add: py_index_def)
qed

lemma prefix_version_colon: "prefix ''version:'' l \<Longrightarrow> CHR '':'' \<in> set l"
  by (auto simp: prefix_def)

section \<open>The version check\<close>

text \<open>The two loops never raise, and they compute the tokens of the specification.\<close>

lemma scan_version_dart_find:
  "scan_version_dart ls = Inr (spec_dart_token (find (py_in ''APP_VERSION'') ls))"
  by (induction ls) (simp_all add: spec_dart_token_def py_in_single py_split_second)

lemma scan_version_pubspec_find:
  "scan_version_pubspec ls = Inr (spec_pubspec_token (find (prefix ''version:'') ls))"
  by (induction ls) (simp_all add: spec_pubspec_token_def py_split_second prefix_version_colon)

lemma version_check_run:
  assumes "fs_read t ''lib/config/version.dart'' = Inr dart"
    and "fs_read t ''pubspec.yaml'' = Inr pubspec"
  shows "version_check t s =
     check (spec_dart_token (find (py_in ''APP_VERSION'') (readlines dart))
              \<noteq> spec_pubspec_token (find (prefix ''version:'') (readlines pubspec)))
       (version_messages (spec_dart_token (find (py_in ''APP_VERSION'') (readlines dart)))
          (spec_pubspec_token (find (prefix ''version:'') (readlines pubspec))))
       (s\<lparr>opened := opened s @ [''lib/config/version.dart'', ''pubspec.yaml'']\<rparr>)"
  using assms
  by (simp add: version_check_def andThen_def open_read_def lift_def VERSION_DART_def
      VERSION_PUBSPEC_def scan_version_dart_find scan_version_pubspec_find)

lemma read_dart:
  "fs_read (Dir (version_files d p @ rest)) ''lib/config/version.dart''
     = Inr (universal_newlines d)"
  by (simp add: fs_read_def path_segments_def version_files_def)

lemma read_pubspec:
  "fs_read (Dir (version_files d p @ rest)) ''pubspec.yaml'' = Inr (universal_newlines p)"
  by (simp add: fs_read_def path_segments_def version_files_def)

lemma nl_good_dart: "universal_newlines good_dart = good_dart"
  by (simp add: good_dart_def CR_def LF_def)

lemma nl_good_pubspec: "universal_newlines good_pubspec = good_pubspec"
  by (simp add: good_pubspec_def CR_def LF_def)

lemma nl_old_pubspec: "universal_newlines old_pubspec = old_pubspec"
  by (simp add: old_pubspec_def CR_def LF_def)

text \<open>
  Claim C1. When the two files can be read, the token of \<^verbatim>\<open>version.dart\<close> is taken
  from the first line that contains \<^verbatim>\<open>APP_VERSION\<close> and the token of
  \<^verbatim>\<open>pubspec.yaml\<close> from the first line that starts with \<^verbatim>\<open>version:\<close>.
  The check lets the run go on exactly when the two tokens are the same string; for every
  other pair it prints the message with both values and exits with status 1.
\<close>

theorem version_check_exact:
  assumes "fs_read t ''lib/config/version.dart'' = Inr dart"
    and "fs_read t ''pubspec.yaml'' = Inr pubspec"
    and "vd = spec_dart_token (find (py_in ''APP_VERSION'') (readlines dart))"
    and "vp = spec_pubspec_token (find (prefix ''version:'') (readlines pubspec))"
  shows "VERSION_DART dart = Inr vd \<and> VERSION_PUBSPEC pubspec = Inr vp \<and>
     version_check t s =
       (if vd = vp
        then (Inr (),
              s\<lparr>opened := opened s @ [''lib/config/version.dart'', ''pubspec.yaml''],
                checks := checks s @ [Passed]\<rparr>)
        else (Inl (Exit 1),
              s\<lparr>opened := opened s @ [''lib/config/version.dart'', ''pubspec.yaml''],
                stdout := stdout s @
                  [''Error: version number in version.dart and pubspec.yaml are different'',
                   ''       version.dart: '' @ vd,
                   ''       pubspec.yaml: '' @ vp],
                checks := checks s @ [Failed]\<rparr>))"
  using assms version_check_run [OF assms(1,2), of s]
  by (simp add: VERSION_DART_def VERSION_PUBSPEC_def scan_version_dart_find
      scan_version_pubspec_find check_def version_messages_def)

theorem version_check_exact_witness:
  "version_check (Dir (version_files good_dart good_pubspec)) log0 =
     (Inr (), \<lparr>stdout = [], opened = [''lib/config/version.dart'', ''pubspec.yaml''],
               checks = [Passed]\<rparr>)
   \<and> version_check (Dir (version_files good_dart old_pubspec)) log0 =
     (Inl (Exit 1),
      \<lparr>stdout = [''Error: version number in version.dart and pubspec.yaml are different'',
                 ''       version.dart: 1.0.2'',
                 ''       pubspec.yaml: 1.0.1''],
        opened = [''lib/config/version.dart'', ''pubspec.yaml''],
        checks = [Failed]\<rparr>)"
  using version_check_exact
      [of "Dir (version_files good_dart good_pubspec)" good_dart good_pubspec _ _ log0,
       OF _ _ refl refl]
    version_check_exact
      [of "Dir (version_files good_dart old_pubspec)" good_dart old_pubspec _ _ log0,
       OF _ _ refl refl]
    read_dart [of good_dart good_pubspec "[]"] read_pubspec [of good_dart good_pubspec "[]"]
    read_dart [of good_dart old_pubspec "[]"] read_pubspec [of good_dart old_pubspec "[]"]
  by (simp add: nl_good_dart nl_good_pubspec nl_old_pubspec log0_def)
    (simp add: good_dart_def good_pubspec_def old_pubspec_def spec_dart_token_def
       spec_pubspec_token_def between_quotes_def strip_def isspace_def LF_def quote1_def
       quote2_def)

text \<open>
  Claim C9. The version check comes before the flags are looked at: whatever the flags,
  also with \<^verbatim>\<open>--skip-android\<close> and \<^verbatim>\<open>--skip-ios\<close> together, a run in
  which the two tokens differ prints both values and exits with status 1, having opened
  the two version files only and executed no other check.
\<close>

theorem version_mismatch_any_flags:
  assumes "fs_read (tree w) ''lib/config/version.dart'' = Inr dart"
    and "fs_read (tree w) ''pubspec.yaml'' = Inr pubspec"
    and "vd = spec_dart_token (find (py_in ''APP_VERSION'') (readlines dart))"
    and "vp = spec_pubspec_token (find (prefix ''version:'') (readlines pubspec))"
    and "vd \<noteq> vp"
  shows "flutter_check w a =
     (Exit 1,
      \<lparr>stdout = [''Error: version number in version.dart and pubspec.yaml are different'',
                 ''       version.dart: '' @ vd,
                 ''       pubspec.yaml: '' @ vp],
        opened = [''lib/config/version.dart'', ''pubspec.yaml''],
        checks = [Failed]\<rparr>)"
  using assms(3-5) version_check_run [OF assms(1,2), of log0]
  by (simp add: flutter_check_def script_def andThen_def check_def version_messages_def
      log0_def)

theorem version_mismatch_any_flags_witness:
  "flutter_check
       \<lparr>tree = Dir (version_files good_dart old_pubspec), app_info_json = Inr woxxy_info\<rparr>
       skip_both_args =
     (Exit 1,
      \<lparr>stdout = [''Error: version number in version.dart and pubspec.yaml are different'',
                 ''       version.dart: 1.0.2'',
                 ''       pubspec.yaml: 1.0.1''],
        opened = [''lib/config/version.dart'', ''pubspec.yaml''],
        checks = [Failed]\<rparr>)
   \<and> skip_android skip_both_args \<and> skip_ios skip_both_args"
  using version_mismatch_any_flags
      [of "\<lparr>tree = Dir (version_files good_dart old_pubspec),
             app_info_json = Inr woxxy_info\<rparr>"
          good_dart old_pubspec _ _ skip_both_args, OF _ _ refl refl]
    read_dart [of good_dart old_pubspec "[]"] read_pubspec [of good_dart old_pubspec "[]"]
  by (simp add: nl_good_dart nl_old_pubspec skip_both_args_def)
    (simp add: good_dart_def old_pubspec_def spec_dart_token_def spec_pubspec_token_def
       between_quotes_def strip_def isspace_def LF_def quote1_def quote2_def)

text \<open>
  Claim C10. When no line of \<^verbatim>\<open>version.dart\<close> contains \<^verbatim>\<open>APP_VERSION\<close>
  (or the first such line holds neither a single nor a double quote) and no line of
  \<^verbatim>\<open>pubspec.yaml\<close> starts with \<^verbatim>\<open>version:\<close>, both tokens are the empty
  string, and the check passes: nothing is printed and the run goes on.
\<close>

theorem version_markers_absent:
  assumes "fs_read t ''lib/config/version.dart'' = Inr dart"
    and "fs_read t ''pubspec.yaml'' = Inr pubspec"
    and "(\<forall>l \<in> set (readlines dart). \<not> py_in ''APP_VERSION'' l)
         \<or> (\<exists>l. find (py_in ''APP_VERSION'') (readlines dart) = Some l
                \<and> quote1 \<notin> set l \<and> quote2 \<notin> set l)"
    and "\<forall>l \<in> set (readlines pubspec). \<not> prefix ''version:'' l"
  shows "VERSION_DART dart = Inr '''' \<and> VERSION_PUBSPEC pubspec = Inr '''' \<and>
     version_check t s =
       (Inr (), s\<lparr>opened := opened s @ [''lib/config/version.dart'', ''pubspec.yaml''],
                  checks := checks s @ [Passed]\<rparr>)"
proof -
  have d: "spec_dart_token (find (py_in ''APP_VERSION'') (readlines dart)) = ''''"
  proof -
    from assms(3) consider
        "find (py_in ''APP_VERSION'') (readlines dart) = None"
      | l where "find (py_in ''APP_VERSION'') (readlines dart) = Some l"
          "quote1 \<notin> set l" "quote2 \<notin> set l"
      by (auto simp: find_None_iff)
    then show ?thesis
      by cases (simp_all add: spec_dart_token_def)
  qed
  have "find (prefix ''version:'') (readlines pubspec) = None"
    using assms(4) by (simp add: find_None_iff)
  then have p: "spec_pubspec_token (find (prefix ''version:'') (readlines pubspec)) = ''''"
    by (simp add: spec_pubspec_token_def)
  show ?thesis
    using version_check_run [OF assms(1,2), of s] d p
    by (simp add: VERSION_DART_def VERSION_PUBSPEC_def scan_version_dart_find
        scan_version_pubspec_find check_def)
qed

theorem version_markers_absent_witness:
  "VERSION_DART bare_dart = Inr '''' \<and> VERSION_PUBSPEC bare_pubspec = Inr '''' \<and>
   version_check (Dir (version_files bare_dart bare_pubspec)) log0 =
     (Inr (), \<lparr>stdout = [], opened = [''lib/config/version.dart'', ''pubspec.yaml''],
               checks = [Passed]\<rparr>)"
  using version_markers_absent
      [of "Dir (version_files bare_dart bare_pubspec)" bare_dart bare_pubspec log0]
    read_dart [of bare_dart bare_pubspec "[]"] read_pubspec [of bare_dart bare_pubspec "[]"]
  by (simp add: bare_dart_def bare_pubspec_def CR_def LF_def log0_def)

section \<open>The build configuration\<close>



section \<open>The iOS project file\<close>

text \<open>
  Claim C5. In a run with the iOS checks enabled that reaches the project file, with a
  descriptor that holds the required keys \<^verbatim>\<open>name\<close> and \<^verbatim>\<open>package\<close>:
  the text searched for in \<^verbatim>\<open>ios/Runner.xcodeproj/project.pbxproj\<close> is the value of
  \<^verbatim>\<open>ios-package\<close> when the descriptor has that key, and the value of
  \<^verbatim>\<open>package\<close> when it has not. When the text is found the run ends with status 0;
  when it is not, the run prints the error line that names the text and exits with
  status 1.
\<close>

theorem ios_package_fallback:
  assumes "\<not> skip_ios a"
    and "version_check (tree w) log0 = (Inr (), s1)"
    and "load_app_info w a s1 = (Inr (JObj kvs), s2)"
    and "android_checks (tree w) a (JObj kvs) s2 = (Inr (), s3)"
    and "map_of kvs ''name'' = Some (JStr name)"
    and "fs_read (tree w) ''ios/Runner/Info.plist'' = Inr info_plist"
    and "py_in name info_plist"
    and "map_of kvs ''package'' = Some package"
    and "(map_of kvs ''ios-package'' = None \<and> package = JStr pname)
         \<or> map_of kvs ''ios-package'' = Some (JStr pname)"
    and "fs_read (tree w) ''ios/Runner.xcodeproj/project.pbxproj'' = Inr project_pbxproj"
  shows "flutter_check w a =
     (if py_in pname project_pbxproj
      then (Exit 0,
            s3\<lparr>opened := opened s3 @ [''ios/Runner/Info.plist'',
                                      ''ios/Runner.xcodeproj/project.pbxproj''],
               checks := checks s3 @ [Passed, Passed]\<rparr>)
      else (Exit 1,
            s3\<lparr>opened := opened s3 @ [''ios/Runner/Info.plist'',
                                      ''ios/Runner.xcodeproj/project.pbxproj''],
               stdout := stdout s3 @
                 [''Error: app name '' @ [quote1] @ pname @ [quote1] @
                  '' not found in ios/Runner.xcodeproj/project.pbxproj (PRODUCT_NAME and PRODUCT_BUNDLE_IDENTIFIER)''],
               checks := checks s3 @ [Passed, Failed]\<rparr>))"
proof -
  have pn: "ios_pname (JObj kvs) s = (Inr (JStr pname), s)" for s
    using assms(8,9) by (auto simp add: ios_pname_def andThen_def lift_def)
  have "ios_checks (tree w) a (JObj kvs) s3 =
     check (\<not> py_in pname project_pbxproj) [pbxproj_message (JStr pname)]
       (s3\<lparr>opened := opened s3 @ [''ios/Runner/Info.plist'',
                                 ''ios/Runner.xcodeproj/project.pbxproj''],
          checks := checks s3 @ [Passed]\<rparr>)"
    using assms(1,5,6,7,10)
    by (simp add: ios_checks_def andThen_def open_read_def lift_def key_not_in_def
        check_def pn)
  then show ?thesis
    using assms(2,3,4)
    by (simp add: flutter_check_def script_def andThen_def check_def pbxproj_message_def)
qed

theorem ios_package_fallback_witness:
  "flutter_check
      \<lparr>tree = Dir (version_files good_dart good_pubspec @ override_ios),
        app_info_json = Inr override_info\<rparr> skip_android_args =
     (Exit 0,
      \<lparr>stdout = [],
        opened = [''lib/config/version.dart'', ''pubspec.yaml'', ''app.json'',
                  ''ios/Runner/Info.plist'', ''ios/Runner.xcodeproj/project.pbxproj''],
        checks = [Passed, Passed, Passed]\<rparr>)
   \<and> flutter_check
      \<lparr>tree = Dir (version_files good_dart good_pubspec @ override_ios),
        app_info_json = Inr woxxy_info\<rparr> skip_android_args =
     (Exit 1,
      \<lparr>stdout = [''Error: app name 'com.example.woxxy' not found in ios/Runner.xcodeproj/project.pbxproj (PRODUCT_NAME and PRODUCT_BUNDLE_IDENTIFIER)''],
        opened = [''lib/config/version.dart'', ''pubspec.yaml'', ''app.json'',
                  ''ios/Runner/Info.plist'', ''ios/Runner.xcodeproj/project.pbxproj''],
        checks = [Passed, Passed, Failed]\<rparr>)"
  using ios_package_fallback
      [of skip_android_args
          "\<lparr>tree = Dir (version_files good_dart good_pubspec @ override_ios),
            app_info_json = Inr override_info\<rparr>"
          "\<lparr>stdout = [], opened = [''lib/config/version.dart'', ''pubspec.yaml''],
            checks = [Passed]\<rparr>"
          "[(''name'', JStr ''Woxxy''), (''package'', JStr ''com.example.woxxy''),
            (''ios-package'', JStr ''org.woxxy.ios'')]"
          "\<lparr>stdout = [], opened = [''lib/config/version.dart'', ''pubspec.yaml'', ''app.json''],
            checks = [Passed]\<rparr>"
          "\<lparr>stdout = [], opened = [''lib/config/version.dart'', ''pubspec.yaml'', ''app.json''],
            checks = [Passed]\<rparr>"
          "''Woxxy''" "''<string>Woxxy</string>''" "JStr ''com.example.woxxy''"
          "''org.woxxy.ios''" "''PRODUCT_BUNDLE_IDENTIFIER = org.woxxy.ios;''"]
    ios_package_fallback
      [of skip_android_args
          "\<lparr>tree = Dir (version_files good_dart good_pubspec @ override_ios),
            app_info_json = Inr woxxy_info\<rparr>"
          "\<lparr>stdout = [], opened = [''lib/config/version.dart'', ''pubspec.yaml''],
            checks = [Passed]\<rparr>"
          "[(''name'', JStr ''Woxxy''), (''package'', JStr ''com.example.woxxy'')]"
          "\<lparr>stdout = [], opened = [''lib/config/version.dart'', ''pubspec.yaml'', ''app.json''],
            checks = [Passed]\<rparr>"
          "\<lparr>stdout = [], opened = [''lib/config/version.dart'', ''pubspec.yaml'', ''app.json''],
            checks = [Passed]\<rparr>"
          "''Woxxy''" "''<string>Woxxy</string>''" "JStr ''com.example.woxxy''"
          "''com.example.woxxy''" "''PRODUCT_BUNDLE_IDENTIFIER = org.woxxy.ios;''"]
  by (simp add: run_defs fixture_defs skip_android_args_def override_info_def override_ios_def)

section \<open>How a run ends\<close>
























section \<open>The skip flags\<close>

text \<open>
  A path whose first segment is not \<open>d\<close> is resolved in the same way in two project
  directories that are the same except for \<open>d\<close>; the phases of the script that open
  such paths only run in the same way in both.
\<close>

lemma map_of_filter_other:
  "k \<noteq> d \<Longrightarrow> map_of (filter (\<lambda>e. fst e \<noteq> d) es) k = map_of es k"
  by (induction es) auto

lemma same_except_resolve:
  assumes "same_except d t t'" and "k \<noteq> d"
  shows "resolve t (k # ks) = resolve t' (k # ks)"
proof -
  obtain es es' where t: "t = Dir es" "t' = Dir es'"
    using assms(1) by (cases t; cases t') auto
  then have "filter (\<lambda>e. fst e \<noteq> d) es = filter (\<lambda>e. fst e \<noteq> d) es'"
    using assms(1) by simp
  then have "map_of es k = map_of es' k"
    using map_of_filter_other [OF assms(2), of es] map_of_filter_other [OF assms(2), of es']
    by simp
  then show ?thesis using t by simp
qed

lemma py_split_append_sep:
  "sep \<notin> set xs \<Longrightarrow> py_split sep (xs @ sep # ys) = xs # py_split sep ys"
  by (induction xs) auto

lemma path_segments_dir:
  "CHR ''/'' \<notin> set xs \<Longrightarrow> xs \<noteq> [] \<Longrightarrow>
     path_segments (xs @ CHR ''/'' # ys) = xs # path_segments ys"
  by (simp add: path_segments_def py_split_append_sep)

lemma segments_android: "path_segments (''android/'' @ p) = ''android'' # path_segments p"
  using path_segments_dir [of "''android''" p] by simp

lemma segments_ios: "path_segments (''ios/'' @ p) = ''ios'' # path_segments p"
  using path_segments_dir [of "''ios''" p] by simp

lemma segments_lib: "path_segments (''lib/'' @ p) = ''lib'' # path_segments p"
  using path_segments_dir [of "''lib''" p] by simp

lemma segments_pubspec: "path_segments ''pubspec.yaml'' = [''pubspec.yaml'']"
  by (simp add: path_segments_def)

lemma same_except_read:
  assumes "same_except d t t'" and "path_segments p = k # ks" and "k \<noteq> d"
  shows "open_read t p = open_read t' p"
  using same_except_resolve [OF assms(1,3), of ks] assms(2)
  by (simp add: fs_read_def open_read_def fun_eq_iff)

lemma same_except_walk:
  assumes "same_except d t t'" and "path_segments p = k # ks" and "k \<noteq> d"
  shows "os_walk t p = os_walk t' p"
  using same_except_resolve [OF assms(1,3), of ks] assms(2) by (simp add: os_walk_def)

lemma same_except_version_check:
  assumes "same_except d t t'" and "d \<noteq> ''lib''" and "d \<noteq> ''pubspec.yaml''"
  shows "version_check t = version_check t'"
proof -
  have "open_read t ''lib/config/version.dart'' = open_read t' ''lib/config/version.dart''"
    using same_except_read [OF assms(1) segments_lib [of "''config/version.dart''", simplified]]
      assms(2) by simp
  moreover have "open_read t ''pubspec.yaml'' = open_read t' ''pubspec.yaml''"
    using same_except_read [OF assms(1) segments_pubspec] assms(3) by simp
  ultimately show ?thesis
    by (simp add: version_check_def)
qed

lemma same_except_ios_checks:
  assumes "same_except d t t'" and "d \<noteq> ''ios''"
  shows "ios_checks t a info = ios_checks t' a info"
proof -
  have "open_read t ''ios/Runner/Info.plist'' = open_read t' ''ios/Runner/Info.plist''"
    using same_except_read [OF assms(1) segments_ios [of "''Runner/Info.plist''", simplified]]
      assms(2) by simp
  moreover have "open_read t ''ios/Runner.xcodeproj/project.pbxproj''
      = open_read t' ''ios/Runner.xcodeproj/project.pbxproj''"
    using same_except_read
        [OF assms(1) segments_ios [of "''Runner.xcodeproj/project.pbxproj''", simplified]]
      assms(2) by simp
  ultimately show ?thesis
    by (simp add: ios_checks_def)
qed

lemma same_except_android_read:
  assumes "same_except d t t'" and "d \<noteq> ''android''"
  shows "open_read t (''android/'' @ p) = open_read t' (''android/'' @ p)"
  using same_except_read [OF assms(1) segments_android [of p]] assms(2) by simp

lemma same_except_android_walk:
  assumes "same_except d t t'" and "d \<noteq> ''android''"
  shows "os_walk t (''android/'' @ p) = os_walk t' (''android/'' @ p)"
  using same_except_walk [OF assms(1) segments_android [of p]] assms(2) by simp

lemma same_except_android_checks:
  assumes "same_except d t t'" and "d \<noteq> ''android''"
  shows "android_checks t a info = android_checks t' a info"
proof -
  note r = same_except_android_read [OF assms]
  have m: "android_manifest_checks t info = android_manifest_checks t' info"
    using r [of "''app/src/main/AndroidManifest.xml''"]
      r [of "''app/src/debug/AndroidManifest.xml''"]
    by (simp add: android_manifest_checks_def)
  have k: "kotlin_checks t info = kotlin_checks t' info"
    using same_except_android_walk [OF assms, of "''app/src/main/kotlin/''"]
      r [of "''app/src/main/kotlin/'' @ x" for x]
    by (simp add: kotlin_checks_def kotlin_root_def)
  have g: "build_gradle_checks t info = build_gradle_checks t' info"
    using r [of "''app/build.gradle''"]
    by (simp add: build_gradle_checks_def)
  show ?thesis
    by (simp add: android_checks_def m k g)
qed

lemma same_except_flutter_check:
  assumes "same_except d (tree w) (tree w')" and "app_info_json w = app_info_json w'"
    and "(d = ''android'' \<and> skip_android a) \<or> (d = ''ios'' \<and> skip_ios a)"
  shows "flutter_check w a = flutter_check w' a"
proof -
  have v: "version_check (tree w) = version_check (tree w')"
    using same_except_version_check [OF assms(1)] assms(3) by auto
  have l: "load_app_info w a = load_app_info w' a"
    using assms(2) by (simp add: load_app_info_def fun_eq_iff)
  have "script w a = script w' a"
  proof (cases "d = ''android''")
    case True
    then have "skip_android a" using assms(3) by auto
    then have "android_checks (tree w) a info = android_checks (tree w') a info" for info
      by (simp add: android_checks_def)
    moreover have "ios_checks (tree w) a info = ios_checks (tree w') a info" for info
      using same_except_ios_checks [OF assms(1)] True by simp
    ultimately show ?thesis by (simp add: script_def v l)
  next
    case False
    then have i: "d = ''ios''" "skip_ios a" using assms(3) by auto
    then have "ios_checks (tree w) a info = ios_checks (tree w') a info" for info
      by (simp add: ios_checks_def)
    moreover have "android_checks (tree w) a info = android_checks (tree w') a info" for info
      using same_except_android_checks [OF assms(1)] i by simp
    ultimately show ?thesis by (simp add: script_def v l)
  qed
  then show ?thesis by (simp add: flutter_check_def)
qed

lemma opens_ret: "opens_only P (ret x)"
  by (simp add: opens_only_def ret_def)

lemma opens_lift: "opens_only P (lift r)"
  by (simp add: opens_only_def lift_def split: sum.splits)

lemma opens_check: "opens_only P (check b msgs)"
  by (simp add: opens_only_def check_def)

lemma opens_opened: "P p \<Longrightarrow> opens_only P m \<Longrightarrow> opens_only P (\<lambda>s. m (s\<lparr>opened := opened s @ [p]\<rparr>))"
  by (simp add: opens_only_def)

lemma opens_open_read: "P p \<Longrightarrow> opens_only P (open_read t p)"
  by (simp add: opens_only_def open_read_def lift_def split: sum.splits)

lemma opens_andThen:
  assumes "opens_only P m" and "\<And>x. opens_only P (f x)"
  shows "opens_only P (andThen m f)"
  unfolding opens_only_def
proof (intro allI impI)
  fix s :: log
  assume a: "list_all P (opened s)"
  obtain r s' where ms: "m s = (r, s')" by (cases "m s")
  then have b: "list_all P (opened s')"
    using assms(1) a by (auto simp add: opens_only_def dest!: spec [of _ s])
  show "list_all P (opened (snd (andThen m f s)))"
  proof (cases r)
    case (Inl out)
    then show ?thesis using ms b by (simp add: andThen_def)
  next
    case (Inr x)
    then show ?thesis
      using assms(2) [of x] ms b by (auto simp add: andThen_def opens_only_def)
  qed
qed

lemma opens_key_not_in: "opens_only P (key_not_in info k text)"
  by (simp add: key_not_in_def opens_lift)

lemma opens_key_str: "opens_only P (key_str info k)"
  by (simp add: key_str_def opens_lift)

lemmas opens_intros = opens_andThen opens_ret opens_lift opens_check opens_open_read
  opens_key_not_in opens_key_str

lemma under_android: "path_under d (''android/'' @ p) = (d = ''android'')"
  by (simp only: path_under_def segments_android) auto

lemma under_ios: "path_under d (''ios/'' @ p) = (d = ''ios'')"
  by (simp only: path_under_def segments_ios) auto

lemma under_lib: "path_under d (''lib/'' @ p) = (d = ''lib'')"
  by (simp only: path_under_def segments_lib) auto

lemma under_pubspec: "path_under d ''pubspec.yaml'' = (d = ''pubspec.yaml'')"
  by (simp only: path_under_def segments_pubspec) auto

lemma opens_version_check:
  assumes "d \<noteq> ''lib''" and "d \<noteq> ''pubspec.yaml''"
  shows "opens_only (reads_of a d) (version_check t)"
  unfolding version_check_def
  using assms under_lib [of d "''config/version.dart''"] under_pubspec [of d]
  by (intro opens_intros) (simp_all add: reads_of_def)

lemma opens_load_app_info: "opens_only (reads_of a d) (load_app_info w a)"
  unfolding load_app_info_def
  by (rule opens_opened) (simp_all add: reads_of_def opens_lift)

lemma opens_check_dirs: "opens_only P (check_dirs sp dirs)"
  by (induction dirs) (auto intro!: opens_intros)

lemma opens_walk_loop: "opens_only P (walk_loop sp files triples)"
  by (induction sp files triples rule: walk_loop.induct)
    (auto intro!: opens_intros opens_check_dirs)

lemma reads_android: "d \<noteq> ''android'' \<Longrightarrow> reads_of a d (''android/'' @ p)"
  by (simp only: reads_of_def under_android) simp

lemma opens_android_checks:
  assumes "d \<noteq> ''android'' \<or> skip_android a"
  shows "opens_only (reads_of a d) (android_checks t a info)"
proof (cases "skip_android a")
  case True
  then show ?thesis by (simp add: android_checks_def opens_ret)
next
  case False
  then have d: "d \<noteq> ''android''" using assms by simp
  note r = reads_android [OF d, of a]
  have m: "opens_only (reads_of a d) (android_manifest_checks t info)"
    unfolding android_manifest_checks_def
    using r [of "''app/src/main/AndroidManifest.xml''"]
      r [of "''app/src/debug/AndroidManifest.xml''"]
    by (intro opens_intros) simp_all
  have k: "opens_only (reads_of a d) (kotlin_checks t info)"
    unfolding kotlin_checks_def kotlin_root_def
    using r [of "''app/src/main/kotlin/'' @ x" for x]
    by (intro opens_intros opens_opened opens_walk_loop)
      (auto intro!: opens_intros split: option.splits)
  have g: "opens_only (reads_of a d) (build_gradle_checks t info)"
    unfolding build_gradle_checks_def
    using r [of "''app/build.gradle''"]
    by (intro opens_intros) simp_all
  show ?thesis
    unfolding android_checks_def
    using m k g by (auto intro!: opens_intros)
qed

lemma opens_ios_checks:
  assumes "d \<noteq> ''ios'' \<or> skip_ios a"
  shows "opens_only (reads_of a d) (ios_checks t a info)"
proof (cases "skip_ios a")
  case True
  then show ?thesis by (simp add: ios_checks_def opens_ret)
next
  case False
  then have d: "d \<noteq> ''ios''" using assms by simp
  have "reads_of a d (''ios/'' @ p)" for p
    using d by (simp only: reads_of_def under_ios) simp
  from this [of "''Runner/Info.plist''"] this [of "''Runner.xcodeproj/project.pbxproj''"]
  show ?thesis
    unfolding ios_checks_def ios_pname_def
    using False by (auto intro!: opens_intros)
qed

lemma opens_script:
  assumes "(d = ''android'' \<and> skip_android a) \<or> (d = ''ios'' \<and> skip_ios a)"
  shows "opens_only (reads_of a d) (script w a)"
  unfolding script_def
  using assms
  by (intro opens_andThen opens_version_check opens_load_app_info opens_android_checks
      opens_ios_checks) auto

text \<open>
  Claim C6. In a run with \<^verbatim>\<open>--skip-android\<close>, nothing under \<^verbatim>\<open>android\<close> is
  opened or listed (the descriptor named on the command line apart), and the run is the
  same, output and status included, whatever \<^verbatim>\<open>android\<close> holds and whether it
  exists or not. The same holds for \<^verbatim>\<open>--skip-ios\<close> and \<^verbatim>\<open>ios\<close>.
\<close>

theorem skip_flags_bypass:
  assumes "(d = ''android'' \<and> skip_android a) \<or> (d = ''ios'' \<and> skip_ios a)"
    and "same_except d (tree w) (tree w')"
    and "app_info_json w = app_info_json w'"
  shows "flutter_check w a = flutter_check w' a
     \<and> list_all (\<lambda>p. p = app_info a \<or> \<not> path_under d p)
         (opened (snd (flutter_check w a)))"
proof -
  have "list_all (reads_of a d) (opened (snd (script w a log0)))"
    using opens_script [OF assms(1), of w] by (simp add: opens_only_def log0_def)
  then have "list_all (reads_of a d) (opened (snd (flutter_check w a)))"
    by (cases "script w a log0") (auto simp add: flutter_check_def split: sum.splits)
  then show ?thesis
    using same_except_flutter_check [OF assms(2,3,1)]
    by (simp add: reads_of_def [abs_def])
qed

theorem skip_flags_bypass_witness:
  "flutter_check ios_only_world skip_android_args
     = flutter_check broken_android_world skip_android_args
   \<and> list_all (\<lambda>p. p = app_info skip_android_args \<or> \<not> path_under ''android'' p)
       (opened (snd (flutter_check ios_only_world skip_android_args)))
   \<and> skip_android skip_android_args"
proof -
  have f: "(''android'' = ''android'' \<and> skip_android skip_android_args)
           \<or> (''android'' = ''ios'' \<and> skip_ios skip_android_args)"
    by (simp add: skip_android_args_def)
  have s: "same_except ''android'' (tree ios_only_world) (tree broken_android_world)"
    by (simp add: ios_only_world_def broken_android_world_def version_files_def good_ios_def
        ios_files_def broken_android_def)
  have j: "app_info_json ios_only_world = app_info_json broken_android_world"
    by (simp add: ios_only_world_def broken_android_world_def)
  from skip_flags_bypass [OF f s j] f show ?thesis
    by blast
qed

section \<open>The Android manifests and the Kotlin sources\<close>

lemmas bug_defs = unlabelled_debug_manifest_def unlabelled_debug_world_def misplaced_kotlin_def
  misplaced_activity_world_def trailing_dir_kotlin_def trailing_dir_world_def
  skip_kotlin_ios_args_def

text \<open>
  Claim C2 says that the app name is looked for in both manifests. Line 90 of the script,
  which prints that the name was not found in the debug manifest, tests the text of the
  main manifest again. In the run below the debug manifest holds the package name but not
  the app name \<^verbatim>\<open>Woxxy\<close>, every other file is in order, and the run prints
  nothing and ends with status 0.
\<close>

theorem debug_manifest_name_unchecked:
  "\<not> py_in ''Woxxy'' unlabelled_debug_manifest
   \<and> flutter_check unlabelled_debug_world skip_kotlin_ios_args =
     (Exit 0,
      \<lparr>stdout = [],
        opened = [''lib/config/version.dart'', ''pubspec.yaml'', ''app.json'',
                  ''android/app/src/main/AndroidManifest.xml'',
                  ''android/app/src/debug/AndroidManifest.xml'',
                  ''android/app/build.gradle''],
        checks = [Passed, Passed, Passed, Passed, Passed, Passed, Passed, Passed, Passed]\<rparr>)"
  by (simp add: run_defs fixture_defs bug_defs)

text \<open>
  Claim C3 says that \<^verbatim>\<open>MainActivity.kt\<close> must be in the folder of the package.
  The test after the loop (line 131, under the comment that it checks the correct folder)
  looks at \<open>files\<close>, which the loop has left bound to the files of the last directory
  walked. In the first run below the file is in \<^verbatim>\<open>com/example\<close> and the package is
  \<^verbatim>\<open>com.example.woxxy\<close>: the test passes and the run ends by the exception raised
  when the file is opened in the folder of the package, with nothing printed. In the
  second run the file is in the folder of the package, next to an empty directory named
  \<^verbatim>\<open>example\<close>: the run prints that the file was not found and exits with status 1.
\<close>

theorem main_activity_wrong_folder:
  "flutter_check misplaced_activity_world all_args =
     (Raised FileNotFoundError,
      \<lparr>stdout = [],
        opened = [''lib/config/version.dart'', ''pubspec.yaml'', ''app.json'',
                  ''android/app/src/main/AndroidManifest.xml'',
                  ''android/app/src/debug/AndroidManifest.xml'',
                  ''android/app/src/main/kotlin/'',
                  ''android/app/src/main/kotlin/com/example/woxxy/MainActivity.kt''],
        checks = [Passed, Passed, Passed, Passed, Passed, Passed, Passed, Passed]\<rparr>)
   \<and> flutter_check trailing_dir_world all_args =
     (Exit 1,
      \<lparr>stdout = [''Error: MainActivity.kt not found in android/app/src/main/kotlin/''],
        opened = [''lib/config/version.dart'', ''pubspec.yaml'', ''app.json'',
                  ''android/app/src/main/AndroidManifest.xml'',
                  ''android/app/src/debug/AndroidManifest.xml'',
                  ''android/app/src/main/kotlin/''],
        checks = [Passed, Passed, Passed, Passed, Passed, Passed, Passed, Passed, Passed,
                  Failed]\<rparr>)"
  by (simp add: run_defs fixture_defs bug_defs)

section \<open>The archive of the Windows packager\<close>













end
